theory Spec2Isabelle
  imports Main
begin

section \<open>JavaScript values\<close>

text \<open>
  The components rely on JavaScript truthiness in their guards: a missing value
  (\<open>undefined\<close>, \<open>null\<close>), the number \<open>0\<close> and the empty string are falsy. A value that
  may be missing is an \<open>option\<close>; the three tests below are the ones the source applies
  to numbers (timer handles, session ids, timestamps) and to strings.
\<close>

definition truthy_num :: "nat option \<Rightarrow> bool" where
  "truthy_num v = (case v of None \<Rightarrow> False | Some n \<Rightarrow> n \<noteq> 0)"

definition truthy_str :: "string option \<Rightarrow> bool" where
  "truthy_str v = (case v of None \<Rightarrow> False | Some t \<Rightarrow> t \<noteq> [])"

text \<open>\<open>a || b\<close> on strings that may be missing: \<open>a\<close> when it is truthy, else \<open>b\<close>.\<close>

definition js_or :: "string option \<Rightarrow> string option \<Rightarrow> string option" where
  "js_or a b = (if truthy_str a then a else b)"

text \<open>\<open>a || 'literal'\<close>: the string \<open>a\<close> when it is there and not empty, else the literal.\<close>

definition str_or :: "string option \<Rightarrow> string \<Rightarrow> string" where
  "str_or a d = (case a of None \<Rightarrow> d | Some t \<Rightarrow> if t \<noteq> [] then t else d)"

section \<open>The status poller (GeneralChat.jsx and chatDashboard.jsx)\<close>

text \<open>
  Both components carry the same \<open>pollStatus\<close>, \<open>stopPolling\<close> and \<open>startPolling\<close>;
  they differ only in the name of the refetch callback (\<open>fetchFiles\<close>, \<open>fetchData\<close>).
  One model serves both.
\<close>

type_synonym file_id = nat
type_synonym timer_id = nat

text \<open>
  The payload of the status endpoint, \<open>{status, message?, error?}\<close>. The field
  \<open>message\<close> is called \<open>status_message\<close> here, the name \<open>message\<close> being taken by the
  chat messages below.
\<close>

record status_data =
  status :: string
  status_message :: "string option"
  error :: "string option"

text \<open>A tracked entry of \<open>fileStatuses\<close>: the payload spread, plus \<open>startTime\<close>.\<close>

record file_status = status_data +
  startTime :: "int option"

datatype toast =
    ToastError string string
  | ToastSuccess string string
  | ToastInfo string string

text \<open>
  The poller's state: the React state \<open>fileStatuses\<close>, the ref
  \<open>pollIntervalsRef.current\<close>, and the part of the browser the code acts on: the
  interval timers that are live (each with the file id its callback polls), the last
  handle the browser issued, the toasts shown and the number of refetches of the file
  list.
\<close>

record poller =
  fileStatuses :: "file_id \<rightharpoonup> file_status"
  pollIntervals :: "file_id \<rightharpoonup> timer_id"
  timers :: "(timer_id \<times> file_id) list"
  lastTimer :: timer_id
  toasts :: "toast list"
  fetchFiles_calls :: nat

definition POLL_TIMEOUT :: int where
  "POLL_TIMEOUT = 120000"

definition init_poller :: poller where
  "init_poller = \<lparr>fileStatuses = Map.empty, pollIntervals = Map.empty, timers = [],
     lastTimer = 0, toasts = [], fetchFiles_calls = 0\<rparr>"

text \<open>
  \<open>setInterval\<close> returns a fresh handle, an integer greater than zero, and the timer is
  live from then on; \<open>clearInterval\<close> cancels the timer with the given handle. A live
  timer is kept with the file id that its callback passes to \<open>pollStatus\<close>; its period
  (\<open>POLL_INTERVAL\<close>, 3000 ms) decides when the ticks come, which the events below leave
  open.
\<close>

definition setInterval :: "file_id \<Rightarrow> poller \<Rightarrow> timer_id \<times> poller" where
  "setInterval fileId s =
     (let h = Suc (lastTimer s)
      in (h, s\<lparr>timers := timers s @ [(h, fileId)], lastTimer := h\<rparr>))"

definition clearInterval :: "timer_id \<Rightarrow> poller \<Rightarrow> poller" where
  "clearInterval h s = s\<lparr>timers := filter (\<lambda>t. fst t \<noteq> h) (timers s)\<rparr>"

definition stopPolling :: "file_id \<Rightarrow> poller \<Rightarrow> poller" where
  "stopPolling fileId s =
     (if truthy_num (pollIntervals s fileId)
      then (case pollIntervals s fileId of
              None \<Rightarrow> s
            | Some h \<Rightarrow> (clearInterval h s)\<lparr>pollIntervals := (pollIntervals s)(fileId := None)\<rparr>)
      else s)"

definition startPolling :: "file_id \<Rightarrow> poller \<Rightarrow> poller" where
  "startPolling fileId s =
     (let s1 = stopPolling fileId s;
          (h, s2) = setInterval fileId s1
      in s2\<lparr>pollIntervals := (pollIntervals s2)(fileId \<mapsto> h)\<rparr>)"

definition toast_error :: "string \<Rightarrow> string \<Rightarrow> poller \<Rightarrow> poller" where
  "toast_error m t s = s\<lparr>toasts := toasts s @ [ToastError m t]\<rparr>"

definition toast_success :: "string \<Rightarrow> string \<Rightarrow> poller \<Rightarrow> poller" where
  "toast_success m t s = s\<lparr>toasts := toasts s @ [ToastSuccess m t]\<rparr>"

definition fetchFiles :: "poller \<Rightarrow> poller" where
  "fetchFiles s = s\<lparr>fetchFiles_calls := Suc (fetchFiles_calls s)\<rparr>"

text \<open>The timers that are live for a file id, and whether its polling loop runs.\<close>

definition liveTimers :: "poller \<Rightarrow> file_id \<Rightarrow> (timer_id \<times> file_id) list" where
  "liveTimers s fileId = filter (\<lambda>t. snd t = fileId) (timers s)"

definition polling :: "poller \<Rightarrow> file_id \<Rightarrow> bool" where
  "polling s fileId = (liveTimers s fileId \<noteq> [])"

subsection \<open>One poll tick\<close>

text \<open>
  \<open>currentStatus.startTime || Date.now()\<close>: the tracked start time when there is one
  (and it is not 0), else the clock, read a first time.
\<close>

definition startTimeOf :: "file_status option \<Rightarrow> int \<Rightarrow> int" where
  "startTimeOf currentStatus now0 =
     (case currentStatus of
        None \<Rightarrow> now0
      | Some c \<Rightarrow> (case startTime c of None \<Rightarrow> now0 | Some t \<Rightarrow> if t \<noteq> 0 then t else now0))"

text \<open>\<open>currentStatus.status === 'processing'\<close>, false when nothing is tracked.\<close>

definition wasProcessing :: "file_status option \<Rightarrow> bool" where
  "wasProcessing currentStatus =
     (case currentStatus of None \<Rightarrow> False | Some c \<Rightarrow> status c = ''processing'')"

text \<open>\<open>Date.now() - startTime > POLL_TIMEOUT\<close>, with the clock read a second time.\<close>

definition timedOut :: "poller \<Rightarrow> file_id \<Rightarrow> int \<Rightarrow> int \<Rightarrow> bool" where
  "timedOut s fileId now0 now1 =
     (now1 - startTimeOf (fileStatuses s fileId) now0 > POLL_TIMEOUT)"

definition terminal :: "string \<Rightarrow> bool" where
  "terminal st = (st = ''completed'' \<or> st = ''failed'')"

text \<open>
  \<open>pollStatus\<close>. The response is \<open>None\<close> when the request fails (the \<open>catch\<close> returns
  \<open>null\<close>); \<open>now0\<close> and \<open>now1\<close> are the two readings of \<open>Date.now()\<close> inside the state
  updater. The result is the value the function returns and the state after it.
\<close>

definition pollStatus ::
  "file_id \<Rightarrow> status_data option \<Rightarrow> int \<Rightarrow> int \<Rightarrow> poller \<Rightarrow> status_data option \<times> poller" where
  "pollStatus fileId response now0 now1 s =
     (case response of
        None \<Rightarrow> (None, s)
      | Some statusData \<Rightarrow>
          (let currentStatus = fileStatuses s fileId;
               startTime = startTimeOf currentStatus now0;
               wasProc = wasProcessing currentStatus
           in if now1 - startTime > POLL_TIMEOUT then
                (let s1 = toast_error ''Processing timed out. Please try again.'' ''Timeout''
                            (stopPolling fileId s)
                 in (Some statusData,
                     s1\<lparr>fileStatuses := (fileStatuses s)(fileId \<mapsto>
                          \<lparr>status = ''failed'',
                           status_message = status_message statusData,
                           error = Some ''Processing timed out. Please try again.'',
                           startTime = Some startTime\<rparr>)\<rparr>))
              else
                (let s1 =
                   (if status statusData = ''completed'' \<or> status statusData = ''failed'' then
                      (let s2 = stopPolling fileId s
                       in if status statusData = ''completed'' then
                            (let s3 = fetchFiles s2
                             in if wasProc
                                then toast_success
                                       ''Document processed successfully! Ready to chat.''
                                       ''Complete'' s3
                                else s3)
                          else if status statusData = ''failed'' \<and> wasProc then
                            toast_error
                              (str_or (error statusData) ''Processing failed. Please try again.'')
                              ''Failed'' s2
                          else s2)
                    else s)
                 in (Some statusData,
                     s1\<lparr>fileStatuses := (fileStatuses s)(fileId \<mapsto>
                          \<lparr>status = status statusData,
                           status_message = status_message statusData,
                           error = error statusData,
                           startTime = Some startTime\<rparr>)\<rparr>))))"

text \<open>
  What can happen to a poller: the two timer operations, a poll tick, and any other
  handler writing or deleting a tracked entry (\<open>handleProcessFile\<close>, the initial
  sweep, \<open>handleFileDelete\<close>).
\<close>

datatype poller_event =
    StartPolling file_id
  | StopPolling file_id
  | PollTick file_id "status_data option" int int
  | SetStatus file_id "file_status option"

fun poller_step :: "poller \<Rightarrow> poller_event \<Rightarrow> poller" where
  "poller_step s (StartPolling f) = startPolling f s"
| "poller_step s (StopPolling f) = stopPolling f s"
| "poller_step s (PollTick f r now0 now1) = snd (pollStatus f r now0 now1 s)"
| "poller_step s (SetStatus f v) = s\<lparr>fileStatuses := (fileStatuses s)(f := v)\<rparr>"

definition poller_run :: "poller_event list \<Rightarrow> poller" where
  "poller_run evs = foldl poller_step init_poller evs"

text \<open>
  The invariant behind the timer registry: handles are distinct, positive and not
  beyond the last one issued, and a timer is live for a file id exactly when the
  registry holds its handle for that file id.
\<close>

definition registry_ok :: "poller \<Rightarrow> bool" where
  "registry_ok s =
     (distinct (map fst (timers s)) \<and>
      (\<forall>h f. (h, f) \<in> set (timers s) \<longleftrightarrow> pollIntervals s f = Some h) \<and>
      (\<forall>t \<in> set (timers s). 0 < fst t \<and> fst t \<le> lastTimer s))"

section \<open>The chat controller (GeneralChat.jsx)\<close>

text \<open>
  \<open>String.prototype.trim\<close> removes white space and line terminators from both ends.
  A \<open>string\<close> here is a list of 8-bit characters; among the code units below 256 the
  ones that \<open>trim\<close> removes are TAB, LF, VT, FF, CR, SP and NBSP.
\<close>

definition js_whitespace :: "char \<Rightarrow> bool" where
  "js_whitespace c = ((of_char c :: nat) \<in> {9, 10, 11, 12, 13, 32, 160})"

definition trim :: "string \<Rightarrow> string" where
  "trim t = rev (dropWhile js_whitespace (rev (dropWhile js_whitespace t)))"

record chat_message =
  message :: string
  is_user_message :: bool
  create_at :: string
  documents_used :: "string list option"

text \<open>
  The field \<open>ai_response\<close> of the answer to a posted message; its \<open>documents_used\<close>
  is called \<open>response_documents_used\<close>, the shorter name being a field of the chat
  message.
\<close>

record ai_response =
  content :: string
  created_at :: string
  response_documents_used :: "string list option"

text \<open>
  How the POST of a message ends: rejected, with \<open>error.response?.data?.detail\<close> when
  there is one, or resolved with the assistant's answer.
\<close>

datatype post_result =
    Rejected "string option"
  | Resolved ai_response

text \<open>The network calls that \<open>handleSubmit\<close> causes, in the order it causes them.\<close>

datatype request =
    CreateSession
  | PostMessage nat string string string

text \<open>
  The controller's state (\<open>useState\<close> values, and \<open>showingLetters\<close> of the typing
  hook), with what the user and the network see of it: the alerts shown, the requests
  issued, the calls of \<open>onSessionUpdate\<close>. The state values are those of the instance
  of the component that is on screen; a run of \<open>handleSubmit\<close> is taken as a whole:
  nothing else writes the state while the run awaits the network.
\<close>

record chat =
  question :: string
  isLoading :: bool
  language :: string
  model :: string
  messages :: "chat_message list"
  showingLetters :: bool
  alerts :: "string list"
  requests :: "request list"
  sessionUpdates :: nat

text \<open>
  What one run of \<open>handleSubmit\<close> reads from outside the controller: the props
  \<open>sessionId\<close>, \<open>onCreateSession\<close> (\<open>None\<close> when the prop is not supplied, else the
  value its promise resolves to, \<open>None\<close> for \<open>null\<close>) and \<open>onSessionUpdate\<close> (whether
  it is supplied); \<open>includedFiles\<close>, the processed files computed by the hook
  \<open>useFileHelpers\<close>; the outcome of the POST; and the two timestamps. The last two
  fields matter when the run makes the page mount a new instance of the component
  (see \<open>remount\<close> below): the transcript that instance ends up with, loaded by its own
  request for the session's history (the empty list when that request fails), and the
  initial \<open>showingLetters\<close> of the hook \<open>useTypingAnimation\<close>.
\<close>

record submit_env =
  sessionId :: "nat option"
  includedFiles :: "file_id list"
  onCreateSession :: "nat option option"
  onSessionUpdate :: bool
  postResult :: post_result
  formattedTime :: string
  errorTime :: string
  loadedHistory :: "chat_message list"
  mountedShowingLetters :: bool

definition alert :: "string \<Rightarrow> chat \<Rightarrow> chat" where
  "alert m s = s\<lparr>alerts := alerts s @ [m]\<rparr>"

text \<open>\<open>question_p.trim() || question.trim()\<close>.\<close>

definition finalQuestionOf :: "string \<Rightarrow> chat \<Rightarrow> string" where
  "finalQuestionOf question_p s =
     (if trim question_p \<noteq> [] then trim question_p else trim (question s))"

text \<open>
  The part of \<open>handleSubmit\<close> from \<open>setShowingLetters(false)\<close> on, once the session id
  to use is known to be truthy.
\<close>

definition sendMessage :: "submit_env \<Rightarrow> nat \<Rightarrow> string \<Rightarrow> chat \<Rightarrow> chat" where
  "sendMessage env targetSessionId finalQuestion s =
     (let s1 = s\<lparr>showingLetters := False, isLoading := True\<rparr>;
          s2 = s1\<lparr>messages := messages s @
                 [\<lparr>message = finalQuestion, is_user_message = True,
                   create_at = formattedTime env, documents_used = None\<rparr>]\<rparr>;
          s3 = s2\<lparr>question := []\<rparr>;
          s4 = s3\<lparr>requests := requests s3 @
                 [PostMessage targetSessionId finalQuestion (language s) (model s)]\<rparr>;
          s5 = (case postResult env of
                  Resolved aiResponse \<Rightarrow>
                    (let s6 = s4\<lparr>messages := messages s4 @
                                [\<lparr>message = content aiResponse, is_user_message = False,
                                  create_at = created_at aiResponse,
                                  documents_used = response_documents_used aiResponse\<rparr>]\<rparr>;
                         s7 = s6\<lparr>showingLetters := True\<rparr>
                     in if onSessionUpdate env
                        then s7\<lparr>sessionUpdates := Suc (sessionUpdates s7)\<rparr>
                        else s7)
                | Rejected detail \<Rightarrow>
                    s4\<lparr>messages := messages s4 @
                         [\<lparr>message = str_or detail ''An error occurred. Please try again.'',
                           is_user_message = False, create_at = errorTime env,
                           documents_used = None\<rparr>]\<rparr>)
      in s5\<lparr>isLoading := False\<rparr>)"

text \<open>
  The page renders the component as \<open><GeneralChatComponent key={chatKey} ...>\<close>, and
  the \<open>onCreateSession\<close> it passes is \<open>createNewSession\<close>, which increments \<open>chatKey\<close>
  whenever it returns an id (and returns \<open>null\<close>, changing nothing, when the creation
  fails). A run of \<open>handleSubmit\<close> that creates its session therefore goes on in an
  instance that React has discarded: its requests and its call of \<open>onSessionUpdate\<close>
  still happen, but what it writes to its own state (\<open>messages\<close>, \<open>question\<close>,
  \<open>isLoading\<close>, \<open>showingLetters\<close>) is lost. On screen is a new instance, with the
  initial values of \<open>useState\<close> and the transcript that it loads itself.
\<close>

definition remount :: "submit_env \<Rightarrow> chat \<Rightarrow> chat" where
  "remount env s =
     s\<lparr>question := [], isLoading := False, language := ''Auto-detect'', model := ''Mistral'',
       messages := loadedHistory env, showingLetters := mountedShowingLetters env\<rparr>"

definition handleSubmit :: "submit_env \<Rightarrow> string \<Rightarrow> chat \<Rightarrow> chat" where
  "handleSubmit env question_p s =
     (let activeFilesCount = length (includedFiles env)
      in if activeFilesCount = 0 then
           alert ''Please add at least one document to the knowledge base first.'' s
         else
           (let finalQuestion = finalQuestionOf question_p s
            in if finalQuestion = [] then alert ''Please enter a question.'' s
               else if \<not> truthy_num (sessionId env) \<and> onCreateSession env \<noteq> None then
                 (let s1 = s\<lparr>requests := requests s @ [CreateSession]\<rparr>
                  in case onCreateSession env of
                       Some (Some created) \<Rightarrow>
                         if created \<noteq> 0
                         then remount env (sendMessage env created finalQuestion s1)
                         else alert ''Failed to create chat session.'' s1
                     | _ \<Rightarrow> alert ''Failed to create chat session.'' s1)
               else
                 (case sessionId env of
                    Some targetSessionId \<Rightarrow>
                      if targetSessionId \<noteq> 0
                      then sendMessage env targetSessionId finalQuestion s
                      else s
                  | None \<Rightarrow> s)))"

subsection \<open>The deferred question\<close>

text \<open>
  What the pending-question effect reads and writes: the ref \<open>hasHandledPendingRef\<close>,
  \<open>location.state?.question\<close>, the entry \<open>pendingQuestion\<close> of local storage, the
  calls of \<open>navigate\<close>, the timeouts scheduled and not yet fired (delay, and the
  question their callback passes to \<open>handleSubmit\<close>), and the questions that fired
  timeouts have passed to \<open>handleSubmit\<close>.
\<close>

record deferred =
  hasHandledPendingRef :: bool
  stateQuestion :: "string option"
  pendingQuestion :: "string option"
  navigations :: nat
  timeouts :: "(nat \<times> string) list"
  submitted :: "string list"

definition init_deferred :: "string option \<Rightarrow> string option \<Rightarrow> deferred" where
  "init_deferred sq pq = \<lparr>hasHandledPendingRef = False, stateQuestion = sq,
     pendingQuestion = pq, navigations = 0, timeouts = [], submitted = []\<rparr>"

text \<open>One run of the effect, with the current value of \<open>filesIsLoading\<close>.\<close>

definition pendingQuestionEffect :: "bool \<Rightarrow> deferred \<Rightarrow> deferred" where
  "pendingQuestionEffect filesIsLoading d =
     (if filesIsLoading then d
      else if hasHandledPendingRef d then d
      else
        (case js_or (stateQuestion d) (pendingQuestion d) of
           None \<Rightarrow> d
         | Some questionToAsk \<Rightarrow>
             if questionToAsk = [] then d
             else
               (let d1 = d\<lparr>hasHandledPendingRef := True\<rparr>;
                    d2 = (if truthy_str (pendingQuestion d)
                          then d1\<lparr>pendingQuestion := None\<rparr> else d1);
                    d3 = (if truthy_str (stateQuestion d)
                          then d2\<lparr>stateQuestion := None, navigations := Suc (navigations d2)\<rparr>
                          else d2)
                in d3\<lparr>timeouts := timeouts d3 @ [(100, questionToAsk)]\<rparr>)))"

text \<open>
  What can happen during the life of one controller instance: the effect runs (its
  dependencies changed), the oldest timeout fires, some other code writes the
  local-storage entry, the router's location state changes.
\<close>

datatype deferred_event =
    EffectRuns bool
  | TimeoutFires
  | StorageWrite "string option"
  | LocationChange "string option"

fun deferred_step :: "deferred \<Rightarrow> deferred_event \<Rightarrow> deferred" where
  "deferred_step d (EffectRuns filesIsLoading) = pendingQuestionEffect filesIsLoading d"
| "deferred_step d TimeoutFires =
     (case timeouts d of
        [] \<Rightarrow> d
      | t # ts \<Rightarrow> d\<lparr>timeouts := ts, submitted := submitted d @ [snd t]\<rparr>)"
| "deferred_step d (StorageWrite v) = d\<lparr>pendingQuestion := v\<rparr>"
| "deferred_step d (LocationChange v) = d\<lparr>stateQuestion := v\<rparr>"

definition deferred_run :: "string option \<Rightarrow> string option \<Rightarrow> deferred_event list \<Rightarrow> deferred" where
  "deferred_run sq pq evs = foldl deferred_step (init_deferred sq pq) evs"

section \<open>The session list (the chat page)\<close>

text \<open>A roster entry; its field \<open>id\<close> is called \<open>session_id\<close>.\<close>

record session =
  session_id :: nat
  title :: string
  updated_at :: string

record page =
  sessions :: "session list"
  activeSessionId :: "nat option"
  isLoadingSessions :: bool
  chatKey :: nat

text \<open>
  \<open>fetchSessions\<close> is a \<open>useCallback\<close>: the \<open>activeSessionId\<close> that its guard tests is
  the value of the render that created the callback, the first argument here, not the
  state when the response arrives. The page calls the callback of its first render
  once, at mount; the chat component calls, after an answered POST, the
  \<open>onSessionUpdate\<close> that \<open>handleSubmit\<close> was rendered with. The response is \<open>None\<close>
  when the request fails; the two questions are \<open>location.state?.question\<close> and the
  local-storage entry \<open>pendingQuestion\<close>.
\<close>

definition fetchSessions ::
  "nat option \<Rightarrow> session list option \<Rightarrow> string option \<Rightarrow> string option \<Rightarrow> page \<Rightarrow> page"
  where
  "fetchSessions capturedActiveSessionId response stateQ storedQ s =
     (let s0 = s\<lparr>isLoadingSessions := True\<rparr>;
          s3 = (case response of
                  None \<Rightarrow> s0
                | Some data \<Rightarrow>
                    (let s1 = s0\<lparr>sessions := data\<rparr>;
                         pendingQ = js_or stateQ storedQ
                     in if \<not> truthy_num capturedActiveSessionId \<and> length data > 0 \<and>
                           \<not> truthy_str pendingQ
                        then s1\<lparr>activeSessionId := Some (session_id (data ! 0))\<rparr>
                        else s1))
      in s3\<lparr>isLoadingSessions := False\<rparr>)"

text \<open>
  \<open>createNewSession\<close>, with the answer to the POST that creates the session (\<open>None\<close>
  when it fails). The result is the value the function returns and the page after it.
\<close>

definition createNewSession :: "session option \<Rightarrow> page \<Rightarrow> nat option \<times> page" where
  "createNewSession response s =
     (case response of
        None \<Rightarrow> (None, s)
      | Some newSession \<Rightarrow>
          (Some (session_id newSession),
           s\<lparr>sessions := newSession # sessions s,
             activeSessionId := Some (session_id newSession),
             chatKey := Suc (chatKey s)\<rparr>))"


text \<open>
  The invariant behind the deferred question: while the ref is unset nothing has
  been scheduled or submitted, once it is set at most one timeout has been; and every
  scheduled timeout has the delay 100.
\<close>

definition deferred_ok :: "deferred \<Rightarrow> bool" where
  "deferred_ok d =
     (length (timeouts d) + length (submitted d) \<le> (if hasHandledPendingRef d then 1 else 0) \<and>
      list_all (\<lambda>t. fst t = 100) (timeouts d))"

section \<open>Example states\<close>

text \<open>
  File 1 was sent for processing at time 1000 and is being polled; in the second
  state the server has since answered \<open>pending\<close> once, at time 2000.
\<close>

definition processing_status :: file_status where
  "processing_status = \<lparr>status = ''processing'',
     status_message = Some ''Starting processing...'', error = None, startTime = Some 1000\<rparr>"

definition pending_data :: status_data where
  "pending_data = \<lparr>status = ''pending'', status_message = None, error = None\<rparr>"

definition completed_data :: status_data where
  "completed_data = \<lparr>status = ''completed'', status_message = None, error = None\<rparr>"

definition tracked_events :: "poller_event list" where
  "tracked_events = [SetStatus 1 (Some processing_status), StartPolling 1]"

definition pending_events :: "poller_event list" where
  "pending_events = tracked_events @ [PollTick 1 (Some pending_data) 2000 2000]"

text \<open>
  A controller as it is mounted, a run of \<open>handleSubmit\<close> in session 7 with one
  processed file whose POST is rejected with a detail, the same run with no session
  yet and a session creation that fails, and the same run with no session yet and a
  creation that returns the id 9 (the new session has no history to load).
\<close>

definition init_chat :: chat where
  "init_chat = \<lparr>question = [], isLoading = False, language = ''Auto-detect'',
     model = ''Mistral'', messages = [], showingLetters = False, alerts = [], requests = [],
     sessionUpdates = 0\<rparr>"

definition failing_env :: submit_env where
  "failing_env = \<lparr>sessionId = Some 7, includedFiles = [1], onCreateSession = Some None,
     onSessionUpdate = True, postResult = Rejected (Some ''Model unavailable''),
     formattedTime = ''2024-05-01T10:00:00.000Z'', errorTime = ''2024-05-01T10:00:02.000Z'',
     loadedHistory = [], mountedShowingLetters = False\<rparr>"

definition no_session_env :: submit_env where
  "no_session_env = failing_env\<lparr>sessionId := None\<rparr>"

definition created_env :: submit_env where
  "created_env = failing_env\<lparr>sessionId := None, onCreateSession := Some (Some 9)\<rparr>"

text \<open>
  A roster, most recent first, and the page as it is mounted; then the page after
  \<open>createNewSession\<close> has created session 9, and a roster that holds session 9 but
  not in first place.
\<close>

definition example_roster :: "session list" where
  "example_roster = [\<lparr>session_id = 5, title = ''Exams'', updated_at = ''2024-05-02''\<rparr>,
                     \<lparr>session_id = 3, title = ''New Chat'', updated_at = ''2024-05-01''\<rparr>]"

definition init_page :: page where
  "init_page = \<lparr>sessions = [], activeSessionId = None, isLoadingSessions = True, chatKey = 0\<rparr>"

definition created_page :: page where
  "created_page = snd (createNewSession
     (Some \<lparr>session_id = 9, title = ''New Chat'', updated_at = ''2024-05-03''\<rparr>) init_page)"

definition unordered_roster :: "session list" where
  "unordered_roster = [\<lparr>session_id = 5, title = ''Exams'', updated_at = ''2024-05-02''\<rparr>,
                       \<lparr>session_id = 9, title = ''New Chat'', updated_at = ''2024-05-03''\<rparr>]"

section \<open>Properties of the status poller\<close>

lemma registry_ok_init: "registry_ok init_poller"
  by (simp add: registry_ok_def init_poller_def)

lemma registry_inj:
  assumes "registry_ok s" "pollIntervals s f = Some h" "pollIntervals s g = Some h"
  shows "f = g"
proof -
  from assms have "(h, f) \<in> set (timers s)" "(h, g) \<in> set (timers s)"
    by (simp_all add: registry_ok_def)
  moreover from assms have "distinct (map fst (timers s))"
    by (simp add: registry_ok_def)
  ultimately show ?thesis by (metis eq_key_imp_eq_value)
qed

lemma stopPolling_ok: 
  assumes ok: "registry_ok s" 
  shows "registry_ok (stopPolling f s)"
proof (cases "truthy_num (pollIntervals s f)")
  case False
  then show ?thesis using ok by (simp add: stopPolling_def)
next
  case True
  then obtain h where h: "pollIntervals s f = Some h" "h \<noteq> 0"
    by (auto simp: truthy_num_def split: option.splits)
  have eq: "stopPolling f s = s\<lparr>timers := filter (\<lambda>t. fst t \<noteq> h) (timers s),
                pollIntervals := (pollIntervals s)(f := None)\<rparr>"
    using True h by (simp add: stopPolling_def clearInterval_def)
  have d: "distinct (map fst (filter (\<lambda>t. fst t \<noteq> h) (timers s)))"
    using ok by (simp add: registry_ok_def distinct_map_filter)
  have m: "((h', g) \<in> set (filter (\<lambda>t. fst t \<noteq> h) (timers s)))
              = (((pollIntervals s)(f := None)) g = Some h')" for h' g
  proof (cases "g = f")
    case True
    then show ?thesis using ok h by (auto simp: registry_ok_def)
  next
    case False
    then show ?thesis using ok h registry_inj[OF ok, of g h f]
      by (auto simp: registry_ok_def)
  qed
  have b: "\<forall>t \<in> set (filter (\<lambda>t. fst t \<noteq> h) (timers s)). 0 < fst t \<and> fst t \<le> lastTimer s"
    using ok by (simp add: registry_ok_def)
  show ?thesis
    unfolding eq registry_ok_def using d m b by simp
qed

lemma stopPolling_unregistered:
  assumes ok: "registry_ok s"
  shows "pollIntervals (stopPolling f s) f = None"
proof (cases "pollIntervals s f")
  case None
  then show ?thesis by (simp add: stopPolling_def truthy_num_def)
next
  case (Some h)
  then have mem: "(h, f) \<in> set (timers s)" using ok by (simp add: registry_ok_def)
  have "\<forall>t \<in> set (timers s). 0 < fst t" using ok by (simp add: registry_ok_def)
  with mem have "0 < fst (h, f)" by blast
  then have "0 < h" by simp
  then show ?thesis using Some by (simp add: stopPolling_def truthy_num_def clearInterval_def)
qed

lemma stopPolling_lastTimer: "lastTimer (stopPolling f s) = lastTimer s"
  by (simp add: stopPolling_def clearInterval_def split: option.splits)

lemma startPolling_ok:
  assumes ok: "registry_ok s"
  shows "registry_ok (startPolling f s)"
proof -
  define s1 where "s1 = stopPolling f s"
  define h where "h = Suc (lastTimer s1)"
  have ok1: "registry_ok s1" unfolding s1_def using ok by (rule stopPolling_ok)
  have n: "pollIntervals s1 f = None"
    unfolding s1_def using ok by (rule stopPolling_unregistered)
  have eq: "startPolling f s = s1\<lparr>timers := timers s1 @ [(h, f)], lastTimer := h,
               pollIntervals := (pollIntervals s1)(f \<mapsto> h)\<rparr>"
    by (simp add: startPolling_def setInterval_def Let_def s1_def h_def)
  have bound: "\<forall>t \<in> set (timers s1). 0 < fst t \<and> fst t \<le> lastTimer s1"
    using ok1 by (simp add: registry_ok_def)
  have fresh: "h \<notin> fst ` set (timers s1)"
    using bound by (auto simp: h_def)
  have d: "distinct (map fst (timers s1 @ [(h, f)]))"
    using ok1 fresh by (simp add: registry_ok_def)
  have m: "((h', g) \<in> set (timers s1 @ [(h, f)]))
             = (((pollIntervals s1)(f \<mapsto> h)) g = Some h')" for h' g
  proof (cases "g = f")
    case True
    have "(h', f) \<notin> set (timers s1)" using ok1 n by (simp add: registry_ok_def)
    then show ?thesis using True by auto
  next
    case False
    then show ?thesis using ok1 by (simp add: registry_ok_def)
  qed
  have b: "\<forall>t \<in> set (timers s1 @ [(h, f)]). 0 < fst t \<and> fst t \<le> h"
    using bound by (auto simp: h_def)
  show ?thesis unfolding eq registry_ok_def using d m b by simp
qed

lemma registry_ok_cong:
  assumes "registry_ok s" "timers s' = timers s" "pollIntervals s' = pollIntervals s"
    "lastTimer s' = lastTimer s"
  shows "registry_ok s'"
  using assms by (simp add: registry_ok_def)

lemma pollStatus_registry:
  "timers (snd (pollStatus f r now0 now1 s)) =
     timers (if (case r of None \<Rightarrow> False
                 | Some sd \<Rightarrow> timedOut s f now0 now1 \<or> terminal (status sd))
             then stopPolling f s else s)"
  "pollIntervals (snd (pollStatus f r now0 now1 s)) =
     pollIntervals (if (case r of None \<Rightarrow> False
                 | Some sd \<Rightarrow> timedOut s f now0 now1 \<or> terminal (status sd))
             then stopPolling f s else s)"
  "lastTimer (snd (pollStatus f r now0 now1 s)) =
     lastTimer (if (case r of None \<Rightarrow> False
                 | Some sd \<Rightarrow> timedOut s f now0 now1 \<or> terminal (status sd))
             then stopPolling f s else s)"
  by (cases r; simp add: pollStatus_def Let_def toast_error_def toast_success_def fetchFiles_def
        timedOut_def terminal_def)+

lemma pollStatus_ok:
  assumes ok: "registry_ok s"
  shows "registry_ok (snd (pollStatus f r now0 now1 s))"
proof -
  define s' where "s' = (if (case r of None \<Rightarrow> False
                 | Some sd \<Rightarrow> timedOut s f now0 now1 \<or> terminal (status sd))
             then stopPolling f s else s)"
  have "registry_ok s'" using ok by (simp add: s'_def stopPolling_ok)
  then show ?thesis
    by (rule registry_ok_cong) (simp_all add: pollStatus_registry s'_def)
qed

lemma poller_step_ok:
  assumes ok: "registry_ok s"
  shows "registry_ok (poller_step s e)"
proof (cases e)
  case (StartPolling f)
  then show ?thesis using ok by (simp add: startPolling_ok)
next
  case (StopPolling f)
  then show ?thesis using ok by (simp add: stopPolling_ok)
next
  case (PollTick f r now0 now1)
  then show ?thesis using ok by (simp add: pollStatus_ok)
next
  case (SetStatus f v)
  have "registry_ok (s\<lparr>fileStatuses := (fileStatuses s)(f := v)\<rparr>)"
    by (rule registry_ok_cong[OF ok]) simp_all
  then show ?thesis using SetStatus by simp
qed

lemma poller_run_ok: "registry_ok (poller_run evs)"
  unfolding poller_run_def
  by (induction evs rule: rev_induct) (simp_all add: registry_ok_init poller_step_ok)

lemma registry_one_timer:
  assumes ok: "registry_ok s"
  shows "length (liveTimers s f) \<le> 1"
proof -
  have d: "distinct (liveTimers s f)"
    using ok by (simp add: registry_ok_def liveTimers_def distinct_map)
  have sub: "set (liveTimers s f) \<subseteq> (\<lambda>h. (h, f)) ` set_option (pollIntervals s f)"
    using ok by (auto simp: registry_ok_def liveTimers_def)
  have "card (set (liveTimers s f)) \<le> card ((\<lambda>h. (h, f)) ` set_option (pollIntervals s f))"
    by (rule card_mono[OF _ sub]) simp
  also have "\<dots> \<le> card (set_option (pollIntervals s f))"
    by (rule card_image_le) simp
  also have "\<dots> \<le> 1" by (cases "pollIntervals s f") simp_all
  finally show ?thesis using d by (simp add: distinct_card)
qed

lemma stopPolling_no_timer:
  assumes ok: "registry_ok s"
  shows "liveTimers (stopPolling f s) f = []"
proof -
  have ok': "registry_ok (stopPolling f s)" using ok by (rule stopPolling_ok)
  have n: "pollIntervals (stopPolling f s) f = None" using ok by (rule stopPolling_unregistered)
  have "(h, f) \<notin> set (timers (stopPolling f s))" for h
    using ok' n by (simp add: registry_ok_def)
  then show ?thesis by (auto simp: liveTimers_def filter_empty_conv)
qed

lemma startPolling_timer:
  assumes ok: "registry_ok s"
  shows "liveTimers (startPolling f s) f = [(Suc (lastTimer s), f)]"
    and "pollIntervals (startPolling f s) f = Some (Suc (lastTimer s))"
proof -
  have eq: "startPolling f s = (stopPolling f s)\<lparr>
               timers := timers (stopPolling f s) @ [(Suc (lastTimer s), f)],
               lastTimer := Suc (lastTimer s),
               pollIntervals := (pollIntervals (stopPolling f s))(f \<mapsto> Suc (lastTimer s))\<rparr>"
    by (simp add: startPolling_def setInterval_def Let_def stopPolling_lastTimer)
  have "liveTimers (stopPolling f s) f = []" using ok by (rule stopPolling_no_timer)
  then show "liveTimers (startPolling f s) f = [(Suc (lastTimer s), f)]"
    unfolding eq by (simp add: liveTimers_def)
  show "pollIntervals (startPolling f s) f = Some (Suc (lastTimer s))"
    unfolding eq by simp
qed

lemma stopPolling_absent: "pollIntervals s f = None \<Longrightarrow> stopPolling f s = s"
  by (simp add: stopPolling_def truthy_num_def)

lemma stopPolling_twice:
  assumes ok: "registry_ok s"
  shows "stopPolling f (stopPolling f s) = stopPolling f s"
  by (rule stopPolling_absent) (rule stopPolling_unregistered[OF ok])

text \<open>
  C1. Whatever the poller has been through (any sequence of \<open>startPolling\<close>,
  \<open>stopPolling\<close>, poll ticks and writes to the tracked statuses, from the initial
  state), every file id has at most one live polling timer. \<open>startPolling\<close> leaves
  exactly one live timer for its file id, the new one, whose handle the registry
  holds: any earlier timer of that file id has been cancelled. \<open>stopPolling\<close> leaves
  no live timer and no handle for its file id; called when the registry holds no
  handle for the file id (in any state at all) it changes nothing, and a second call
  in a row changes nothing.
\<close>

theorem at_most_one_polling_timer:
  "length (liveTimers (poller_run evs) fileId) \<le> 1 \<and>
   liveTimers (startPolling fileId (poller_run evs)) fileId
     = [(Suc (lastTimer (poller_run evs)), fileId)] \<and>
   pollIntervals (startPolling fileId (poller_run evs)) fileId
     = Some (Suc (lastTimer (poller_run evs))) \<and>
   liveTimers (stopPolling fileId (poller_run evs)) fileId = [] \<and>
   pollIntervals (stopPolling fileId (poller_run evs)) fileId = None \<and>
   (pollIntervals s fileId = None \<longrightarrow> stopPolling fileId s = s) \<and>
   stopPolling fileId (stopPolling fileId (poller_run evs)) = stopPolling fileId (poller_run evs)"
proof -
  have ok: "registry_ok (poller_run evs)" by (rule poller_run_ok)
  have "length (liveTimers (poller_run evs) fileId) \<le> 1"
    using ok by (rule registry_one_timer)
  moreover have "pollIntervals s fileId = None \<longrightarrow> stopPolling fileId s = s"
    by (simp add: stopPolling_absent)
  ultimately show ?thesis
    using startPolling_timer[OF ok, of fileId] stopPolling_no_timer[OF ok, of fileId]
      stopPolling_unregistered[OF ok, of fileId] stopPolling_twice[OF ok, of fileId]
    by blast
qed

theorem at_most_one_polling_timer_witness:
  "pollIntervals (poller_run [StartPolling 1]) 2 = None \<and>
   stopPolling 2 (poller_run [StartPolling 1]) = poller_run [StartPolling 1] \<and>
   liveTimers (startPolling 1 (poller_run [StartPolling 1, StartPolling 2])) 1 = [(3, 1)] \<and>
   length (liveTimers (poller_run [StartPolling 1, StartPolling 2, StartPolling 1]) 1) \<le> 1"
  using at_most_one_polling_timer[of "[StartPolling 1]" 2 "poller_run [StartPolling 1]"]
    at_most_one_polling_timer[of "[StartPolling 1, StartPolling 2]" 1 init_poller]
    at_most_one_polling_timer[of "[StartPolling 1, StartPolling 2, StartPolling 1]" 1 init_poller]
  by (simp add: poller_run_def init_poller_def startPolling_def stopPolling_def setInterval_def
      clearInterval_def truthy_num_def Let_def)

lemmas poller_defs = pollStatus_def Let_def toast_error_def toast_success_def fetchFiles_def
  timedOut_def terminal_def startTimeOf_def wasProcessing_def POLL_TIMEOUT_def
  stopPolling_def startPolling_def setInterval_def clearInterval_def truthy_num_def
  init_poller_def liveTimers_def polling_def str_or_def poller_run_def

lemmas example_defs = tracked_events_def processing_status_def completed_data_def

lemma stopPolling_not_polling:
  "registry_ok s \<Longrightarrow> \<not> polling (stopPolling f s) f"
  by (simp add: polling_def stopPolling_no_timer)

lemma stopPolling_other:
  assumes ok: "registry_ok s" and ne: "g \<noteq> f"
  shows "liveTimers (stopPolling f s) g = liveTimers s g"
proof (cases "truthy_num (pollIntervals s f)")
  case False
  then show ?thesis by (simp add: stopPolling_def)
next
  case True
  then obtain h where h: "pollIntervals s f = Some h"
    by (auto simp: truthy_num_def split: option.splits)
  have keep: "fst t \<noteq> h" if "t \<in> set (timers s)" "snd t = g" for t
  proof
    assume "fst t = h"
    with that have "(h, g) \<in> set (timers s)" by (metis prod.collapse)
    then have "pollIntervals s g = Some h" using ok by (simp add: registry_ok_def)
    with h ok have "g = f" by (metis registry_inj)
    with ne show False by simp
  qed
  have "filter (\<lambda>t. snd t = g) (filter (\<lambda>t. fst t \<noteq> h) (timers s))
          = filter (\<lambda>t. snd t = g) (timers s)"
    unfolding filter_filter by (rule filter_cong) (use keep in auto)
  then show ?thesis using True h
    by (simp add: stopPolling_def clearInterval_def liveTimers_def)
qed

text \<open>
  C2, as amended. On a poll tick whose status request is answered, when the clock
  minus the start time (the tracked one, else the clock itself) exceeds 120000 ms, the
  tracked status becomes \<open>failed\<close> with the timeout message, whatever status the answer
  carries; the polling loop of the file is stopped and its handle removed, and one error
  toast is shown.
\<close>

theorem timeout_overrides_response:
  "now1 - startTimeOf (fileStatuses (poller_run evs) fileId) now0 > 120000 \<Longrightarrow>
   s' = snd (pollStatus fileId (Some statusData) now0 now1 (poller_run evs)) \<Longrightarrow>
   map_option status (fileStatuses s' fileId) = Some ''failed'' \<and>
   map_option error (fileStatuses s' fileId)
     = Some (Some ''Processing timed out. Please try again.'') \<and>
   \<not> polling s' fileId \<and> pollIntervals s' fileId = None \<and>
   toasts s' = toasts (poller_run evs)
     @ [ToastError ''Processing timed out. Please try again.'' ''Timeout'']"
proof -
  assume t: "now1 - startTimeOf (fileStatuses (poller_run evs) fileId) now0 > 120000"
    and s': "s' = snd (pollStatus fileId (Some statusData) now0 now1 (poller_run evs))"
  have ok: "registry_ok (poller_run evs)" by (rule poller_run_ok)
  have to: "timedOut (poller_run evs) fileId now0 now1"
    using t by (simp add: timedOut_def POLL_TIMEOUT_def)
  have eq: "s' = (toast_error ''Processing timed out. Please try again.'' ''Timeout''
                   (stopPolling fileId (poller_run evs)))\<lparr>
        fileStatuses := (fileStatuses (poller_run evs))(fileId \<mapsto>
          \<lparr>status = ''failed'', status_message = status_message statusData,
           error = Some ''Processing timed out. Please try again.'',
           startTime = Some (startTimeOf (fileStatuses (poller_run evs) fileId) now0)\<rparr>)\<rparr>"
    using t unfolding s' by (simp add: pollStatus_def Let_def POLL_TIMEOUT_def)
  have tm: "timers s' = timers (stopPolling fileId (poller_run evs))"
    and pi: "pollIntervals s' = pollIntervals (stopPolling fileId (poller_run evs))"
    and ts: "toasts s' = toasts (stopPolling fileId (poller_run evs))
               @ [ToastError ''Processing timed out. Please try again.'' ''Timeout'']"
    unfolding eq by (simp_all add: toast_error_def)
  have "toasts (stopPolling fileId (poller_run evs)) = toasts (poller_run evs)"
    by (simp add: stopPolling_def clearInterval_def split: option.splits)
  moreover have "\<not> polling s' fileId"
    using stopPolling_not_polling[OF ok, of fileId] tm by (simp add: polling_def liveTimers_def)
  moreover have "pollIntervals s' fileId = None"
    using stopPolling_unregistered[OF ok, of fileId] pi by simp
  moreover have "map_option status (fileStatuses s' fileId) = Some ''failed''"
    unfolding eq by simp
  moreover have "map_option error (fileStatuses s' fileId)
      = Some (Some ''Processing timed out. Please try again.'')"
    unfolding eq by simp
  ultimately show ?thesis using ts by simp
qed

theorem timeout_overrides_response_witness:
  "(200000::int) - startTimeOf (fileStatuses (poller_run tracked_events) 1) 200000 > 120000 \<and>
   map_option status
     (fileStatuses (snd (pollStatus 1 (Some completed_data) 200000 200000
        (poller_run tracked_events))) 1) = Some ''failed'' \<and>
   \<not> polling (snd (pollStatus 1 (Some completed_data) 200000 200000
        (poller_run tracked_events))) 1 \<and>
   toasts (snd (pollStatus 1 (Some completed_data) 200000 200000 (poller_run tracked_events)))
     = [ToastError ''Processing timed out. Please try again.'' ''Timeout'']"
proof -
  have h: "(200000::int) - startTimeOf (fileStatuses (poller_run tracked_events) 1) 200000
             > 120000"
    by (simp add: poller_defs example_defs)
  have t: "toasts (poller_run tracked_events) = []"
    by (simp add: poller_defs example_defs)
  show ?thesis
    using h t timeout_overrides_response[OF h refl, of completed_data] by simp
qed

text \<open>
  The claim as it stands speaks of every poll tick. A tick whose request fails makes
  no comparison at all: 199 seconds after the start, the file is still tracked as
  \<open>processing\<close>, still polled, and no toast has been shown.
\<close>

theorem timeout_every_tick_counterexample:
  "(200000::int) - startTimeOf (fileStatuses (poller_run tracked_events) 1) 200000 > 120000 \<and>
   map_option status
     (fileStatuses (snd (pollStatus 1 None 200000 200000 (poller_run tracked_events))) 1)
     = Some ''processing'' \<and>
   polling (snd (pollStatus 1 None 200000 200000 (poller_run tracked_events))) 1 \<and>
   toasts (snd (pollStatus 1 None 200000 200000 (poller_run tracked_events))) = []"
  by (simp add: poller_defs example_defs)

lemma stopPolling_frame:
  "toasts (stopPolling f s) = toasts s"
  "fetchFiles_calls (stopPolling f s) = fetchFiles_calls s"
  "fileStatuses (stopPolling f s) = fileStatuses s"
  by (simp_all add: stopPolling_def clearInterval_def split: option.splits)

lemma pollStatus_in_time:
  assumes "\<not> now1 - startTimeOf (fileStatuses s f) now0 > 120000"
    and "status sd = ''completed'' \<or> status sd = ''failed''"
  shows "toasts (snd (pollStatus f (Some sd) now0 now1 s)) = toasts s @
           (if wasProcessing (fileStatuses s f)
            then [if status sd = ''completed''
                  then ToastSuccess ''Document processed successfully! Ready to chat.''
                         ''Complete''
                  else ToastError (str_or (error sd) ''Processing failed. Please try again.'')
                         ''Failed'']
            else [])"
    and "fetchFiles_calls (snd (pollStatus f (Some sd) now0 now1 s)) =
           (if status sd = ''completed'' then Suc (fetchFiles_calls s) else fetchFiles_calls s)"
  using assms
  by (auto simp: pollStatus_def Let_def POLL_TIMEOUT_def toast_error_def toast_success_def
      fetchFiles_def stopPolling_frame)

lemma pollStatus_stops:
  assumes ok: "registry_ok s"
    and "timedOut s f now0 now1 \<or> terminal (status sd)"
  shows "\<not> polling (snd (pollStatus f (Some sd) now0 now1 s)) f"
    and "pollIntervals (snd (pollStatus f (Some sd) now0 now1 s)) f = None"
proof -
  have tm: "timers (snd (pollStatus f (Some sd) now0 now1 s)) = timers (stopPolling f s)"
    and pi: "pollIntervals (snd (pollStatus f (Some sd) now0 now1 s))
               = pollIntervals (stopPolling f s)"
    using assms(2) by (simp_all add: pollStatus_registry)
  show "\<not> polling (snd (pollStatus f (Some sd) now0 now1 s)) f"
    using stopPolling_not_polling[OF ok, of f] tm by (simp add: polling_def liveTimers_def)
  show "pollIntervals (snd (pollStatus f (Some sd) now0 now1 s)) f = None"
    using stopPolling_unregistered[OF ok, of f] pi by simp
qed

text \<open>
  C3, as amended. On a poll tick that has not passed the 120000 ms ceiling, when the
  answer reports \<open>completed\<close> or \<open>failed\<close>: one toast is shown (success for
  \<open>completed\<close>, error for \<open>failed\<close>) when the tracked status was \<open>processing\<close>, and none
  otherwise; in particular none when nothing was tracked for the file yet. On
  \<open>completed\<close> the file list is refetched once. In both cases the polling loop of the
  file is stopped and its handle removed.
\<close>

theorem terminal_status_notification:
  assumes "\<not> now1 - startTimeOf (fileStatuses (poller_run evs) fileId) now0 > 120000"
    and "status statusData = ''completed'' \<or> status statusData = ''failed''"
    and "s' = snd (pollStatus fileId (Some statusData) now0 now1 (poller_run evs))"
  shows "toasts s' = toasts (poller_run evs) @
           (if wasProcessing (fileStatuses (poller_run evs) fileId)
            then [if status statusData = ''completed''
                  then ToastSuccess ''Document processed successfully! Ready to chat.''
                         ''Complete''
                  else ToastError
                         (str_or (error statusData) ''Processing failed. Please try again.'')
                         ''Failed'']
            else []) \<and>
         (toasts s' \<noteq> toasts (poller_run evs))
           = (map_option status (fileStatuses (poller_run evs) fileId) = Some ''processing'') \<and>
         (fileStatuses (poller_run evs) fileId = None \<longrightarrow> toasts s' = toasts (poller_run evs)) \<and>
         (status statusData = ''completed'' \<longrightarrow>
            fetchFiles_calls s' = Suc (fetchFiles_calls (poller_run evs))) \<and>
         \<not> polling s' fileId \<and> pollIntervals s' fileId = None"
proof -
  have ok: "registry_ok (poller_run evs)" by (rule poller_run_ok)
  have trm: "terminal (status statusData)" using assms(2) by (simp add: terminal_def)
  note t = pollStatus_in_time[OF assms(1,2), folded assms(3)]
  have w: "wasProcessing (fileStatuses (poller_run evs) fileId)
            = (map_option status (fileStatuses (poller_run evs) fileId) = Some ''processing'')"
    by (simp add: wasProcessing_def split: option.splits)
  have "\<not> polling s' fileId" "pollIntervals s' fileId = None"
    unfolding assms(3) using pollStatus_stops[OF ok, of fileId now0 now1 statusData] trm
    by simp_all
  moreover have "(toasts s' \<noteq> toasts (poller_run evs))
      = (map_option status (fileStatuses (poller_run evs) fileId) = Some ''processing'')"
    unfolding t(1) w[symmetric] by simp
  moreover have "fileStatuses (poller_run evs) fileId = None \<longrightarrow> toasts s' = toasts (poller_run evs)"
    unfolding t(1) by (simp add: wasProcessing_def)
  ultimately show ?thesis using t by simp
qed

theorem terminal_status_notification_witness:
  "\<not> (3000::int) - startTimeOf (fileStatuses (poller_run tracked_events) 1) 3000 > 120000 \<and>
   (status completed_data = ''completed'' \<or> status completed_data = ''failed'') \<and>
   toasts (snd (pollStatus 1 (Some completed_data) 3000 3000 (poller_run tracked_events)))
     = [ToastSuccess ''Document processed successfully! Ready to chat.'' ''Complete''] \<and>
   fetchFiles_calls (snd (pollStatus 1 (Some completed_data) 3000 3000
     (poller_run tracked_events))) = 1 \<and>
   \<not> polling (snd (pollStatus 1 (Some completed_data) 3000 3000 (poller_run tracked_events))) 1 \<and>
   fileStatuses (poller_run [StartPolling 1]) 1 = None \<and>
   toasts (snd (pollStatus 1 (Some completed_data) 3000 3000 (poller_run [StartPolling 1]))) = []"
proof -
  have h1: "\<not> (3000::int) - startTimeOf (fileStatuses (poller_run tracked_events) 1) 3000
              > 120000"
    by (simp add: poller_defs example_defs)
  have h1': "\<not> (3000::int) - startTimeOf (fileStatuses (poller_run [StartPolling 1]) 1) 3000
              > 120000"
    by (simp add: poller_defs)
  have h2: "status completed_data = ''completed'' \<or> status completed_data = ''failed''"
    by (simp add: completed_data_def)
  have e: "toasts (poller_run tracked_events) = []"
    "fetchFiles_calls (poller_run tracked_events) = 0"
    "wasProcessing (fileStatuses (poller_run tracked_events) 1)"
    "fileStatuses (poller_run [StartPolling 1]) 1 = None"
    "toasts (poller_run [StartPolling 1]) = []"
    by (simp_all add: poller_defs example_defs)
  have c: "status completed_data = ''completed''" by (simp add: completed_data_def)
  show ?thesis
    using h1 h2 e c terminal_status_notification[OF h1 h2 refl]
      terminal_status_notification[OF h1' h2 refl]
    by (simp add: wasProcessing_def)
qed

text \<open>
  The claim as it stands covers every answer with a terminal status. Past the
  ceiling the timeout branch runs first: file 1 is tracked as \<open>pending\<close>, the answer
  \<open>completed\<close> arrives 199 seconds after the start, and a toast is shown although the
  tracked status was not \<open>processing\<close>; the file list is not refetched.
\<close>

theorem terminal_status_counterexample:
  "status completed_data = ''completed'' \<and>
   map_option status (fileStatuses (poller_run pending_events) 1) = Some ''pending'' \<and>
   toasts (poller_run pending_events) = [] \<and>
   toasts (snd (pollStatus 1 (Some completed_data) 200000 200000 (poller_run pending_events)))
     = [ToastError ''Processing timed out. Please try again.'' ''Timeout''] \<and>
   fetchFiles_calls (snd (pollStatus 1 (Some completed_data) 200000 200000
     (poller_run pending_events))) = fetchFiles_calls (poller_run pending_events)"
  by (simp add: poller_defs example_defs pending_events_def pending_data_def)

text \<open>
  C7. A poll tick whose request fails returns \<open>null\<close> and leaves the whole state as it
  was: tracked statuses, toasts, registry and timers. A poll tick stops a polling loop
  only for its own file id, and only when the request was answered and either the
  ceiling of 120000 ms was passed or the answer reports \<open>completed\<close> or \<open>failed\<close>.
\<close>

theorem transport_error_swallowed:
  "pollStatus fileId None now0 now1 s = (None, s) \<and>
   (polling (poller_run evs) g \<and>
    \<not> polling (snd (pollStatus fileId r now0 now1 (poller_run evs))) g \<longrightarrow>
      g = fileId \<and>
      (case r of
         None \<Rightarrow> False
       | Some sd \<Rightarrow> now1 - startTimeOf (fileStatuses (poller_run evs) fileId) now0 > 120000 \<or>
                   status sd = ''completed'' \<or> status sd = ''failed''))"
proof -
  have ok: "registry_ok (poller_run evs)" by (rule poller_run_ok)
  let ?c = "case r of None \<Rightarrow> False
            | Some sd \<Rightarrow> timedOut (poller_run evs) fileId now0 now1 \<or> terminal (status sd)"
  have tm: "timers (snd (pollStatus fileId r now0 now1 (poller_run evs)))
              = timers (if ?c then stopPolling fileId (poller_run evs) else poller_run evs)"
    by (rule pollStatus_registry)
  have lt: "liveTimers (snd (pollStatus fileId r now0 now1 (poller_run evs))) g
              = liveTimers (if ?c then stopPolling fileId (poller_run evs) else poller_run evs) g"
    unfolding liveTimers_def tm ..
  have c: "?c = (case r of
         None \<Rightarrow> False
       | Some sd \<Rightarrow> now1 - startTimeOf (fileStatuses (poller_run evs) fileId) now0 > 120000 \<or>
                   status sd = ''completed'' \<or> status sd = ''failed'')"
    by (simp add: timedOut_def terminal_def POLL_TIMEOUT_def split: option.splits)
  have n: "pollStatus fileId None now0 now1 s = (None, s)"
    by (simp add: pollStatus_def)
  have "g = fileId \<and> ?c"
    if "polling (poller_run evs) g"
      "\<not> polling (snd (pollStatus fileId r now0 now1 (poller_run evs))) g"
  proof (cases ?c)
    case False
    with that lt show ?thesis by (simp add: polling_def)
  next
    case True
    have "g = fileId"
    proof (rule ccontr)
      assume "g \<noteq> fileId"
      then have "liveTimers (stopPolling fileId (poller_run evs)) g
                   = liveTimers (poller_run evs) g"
        by (rule stopPolling_other[OF ok])
      with that lt True show False by (simp add: polling_def)
    qed
    with True show ?thesis by simp
  qed
  then show ?thesis
    unfolding c using n by blast
qed

theorem transport_error_swallowed_witness:
  "polling (poller_run tracked_events) 1 \<and>
   \<not> polling (snd (pollStatus 1 (Some completed_data) 3000 3000 (poller_run tracked_events))) 1 \<and>
   status completed_data = ''completed'' \<and>
   pollStatus 1 None 3000 3000 (poller_run tracked_events)
     = (None, poller_run tracked_events)"
proof -
  have h: "polling (poller_run tracked_events) 1 \<and>
     \<not> polling (snd (pollStatus 1 (Some completed_data) 3000 3000
          (poller_run tracked_events))) 1"
    by (simp add: poller_defs example_defs)
  show ?thesis
    using h transport_error_swallowed[of 1 3000 3000 "poller_run tracked_events"
        tracked_events 1 "Some completed_data"]
    by (simp add: completed_data_def)
qed

section \<open>Properties of the chat controller\<close>

lemmas chat_defs = handleSubmit_def sendMessage_def finalQuestionOf_def remount_def
  alert_def truthy_num_def truthy_str_def str_or_def trim_def js_whitespace_def Let_def

lemma sendMessage_rejected:
  "postResult env = Rejected detail \<Longrightarrow>
   messages (sendMessage env t q s) = messages s @
     [\<lparr>message = q, is_user_message = True, create_at = formattedTime env,
       documents_used = None\<rparr>,
      \<lparr>message = str_or detail ''An error occurred. Please try again.'',
       is_user_message = False, create_at = errorTime env, documents_used = None\<rparr>]"
  by (simp add: sendMessage_def Let_def)

lemma handleSubmit_sends:
  assumes "includedFiles env \<noteq> []" "finalQuestionOf question_p s \<noteq> []"
    "sessionId env = Some t" "t \<noteq> 0"
  shows "handleSubmit env question_p s = sendMessage env t (finalQuestionOf question_p s) s"
  using assms by (simp add: handleSubmit_def truthy_num_def Let_def)

lemma handleSubmit_creates:
  assumes "includedFiles env \<noteq> []" "finalQuestionOf question_p s \<noteq> []"
    "\<not> truthy_num (sessionId env)" "onCreateSession env = Some (Some t)" "t \<noteq> 0"
  shows "handleSubmit env question_p s =
           remount env (sendMessage env t (finalQuestionOf question_p s)
             (s\<lparr>requests := requests s @ [CreateSession]\<rparr>))"
  using assms by (simp add: handleSubmit_def Let_def)

text \<open>
  In a session that exists when \<open>handleSubmit\<close> runs, a rejected POST leaves the
  transcript as it was, then the user's question, then one assistant message with
  the rejection's detail, or with \<open>An error occurred. Please try again.\<close> when there
  is none.
\<close>

lemma send_failure_existing_session:
  assumes "includedFiles env \<noteq> []"
    and "finalQuestionOf question_p s \<noteq> []"
    and "truthy_num (sessionId env)"
    and "postResult env = Rejected detail"
  shows "messages (handleSubmit env question_p s) = messages s @
           [\<lparr>message = finalQuestionOf question_p s, is_user_message = True,
             create_at = formattedTime env, documents_used = None\<rparr>,
            \<lparr>message = str_or detail ''An error occurred. Please try again.'',
             is_user_message = False, create_at = errorTime env, documents_used = None\<rparr>]"
proof -
  from assms(3) obtain t where t: "sessionId env = Some t" "t \<noteq> 0"
    by (auto simp: truthy_num_def split: option.splits)
  show ?thesis
    unfolding handleSubmit_sends[OF assms(1,2) t] sendMessage_rejected[OF assms(4)] ..
qed

text \<open>
  When the session is created by the run, the transcript on screen afterwards is the
  one the new instance loads, whatever the POST did; the request is issued all the
  same.
\<close>

lemma send_after_creation:
  assumes "includedFiles env \<noteq> []"
    and "finalQuestionOf question_p s \<noteq> []"
    and "\<not> truthy_num (sessionId env)"
    and "onCreateSession env = Some (Some t)"
    and "t \<noteq> 0"
  shows "messages (handleSubmit env question_p s) = loadedHistory env"
    and "requests (handleSubmit env question_p s) = requests s @
           [CreateSession, PostMessage t (finalQuestionOf question_p s) (language s) (model s)]"
  unfolding handleSubmit_creates[OF assms]
  by (simp_all add: remount_def sendMessage_def Let_def split: post_result.splits)

text \<open>
  C4. The claim is what the code does in a session that exists, and what it sets out
  to do in every case; it fails where the run creates its session. With no session, one
  processed file, the question \<open>Hello\<close>, a creation that returns the id 9 and a POST
  rejected with the detail \<open>Model unavailable\<close>: the session is created and the message
  posted, and the transcript on screen is empty, holding neither the user's question
  nor the error message. The same run in the existing session 7 ends with the question
  followed by \<open>Model unavailable\<close>.
\<close>

theorem send_failure_after_creation_loses_question:
  "sessionId created_env = None \<and>
   onCreateSession created_env = Some (Some 9) \<and>
   postResult created_env = Rejected (Some ''Model unavailable'') \<and>
   requests (handleSubmit created_env ''Hello'' init_chat)
     = [CreateSession, PostMessage 9 ''Hello'' ''Auto-detect'' ''Mistral''] \<and>
   messages (handleSubmit created_env ''Hello'' init_chat) = [] \<and>
   sessionId failing_env = Some 7 \<and>
   map message (messages (handleSubmit failing_env ''Hello'' init_chat))
     = [''Hello'', ''Model unavailable''] \<and>
   map is_user_message (messages (handleSubmit failing_env ''Hello'' init_chat))
     = [True, False]"
  by (simp add: chat_defs created_env_def failing_env_def init_chat_def)

text \<open>
  C5. When there is no processed file, or the question text (the argument, else the
  input box) trims to nothing, \<open>handleSubmit\<close> shows one alert and does nothing else:
  no request is issued and the message list is as before.
\<close>

theorem submit_guards:
  assumes "includedFiles env = [] \<or> (trim question_p = [] \<and> trim (question s) = [])"
  shows "handleSubmit env question_p s =
           s\<lparr>alerts := alerts s @
               [if includedFiles env = []
                then ''Please add at least one document to the knowledge base first.''
                else ''Please enter a question.'']\<rparr> \<and>
         requests (handleSubmit env question_p s) = requests s \<and>
         messages (handleSubmit env question_p s) = messages s"
  using assms by (auto simp: handleSubmit_def finalQuestionOf_def alert_def Let_def)

theorem submit_guards_witness:
  "(includedFiles (failing_env\<lparr>includedFiles := []\<rparr>) = [] \<or>
      (trim ''Hello'' = [] \<and> trim (question init_chat) = [])) \<and>
   alerts (handleSubmit (failing_env\<lparr>includedFiles := []\<rparr>) ''Hello'' init_chat)
     = [''Please add at least one document to the knowledge base first.''] \<and>
   requests (handleSubmit (failing_env\<lparr>includedFiles := []\<rparr>) ''Hello'' init_chat) = [] \<and>
   (includedFiles failing_env = [] \<or> (trim ''  '' = [] \<and> trim (question init_chat) = [])) \<and>
   alerts (handleSubmit failing_env ''  '' init_chat) = [''Please enter a question.''] \<and>
   messages (handleSubmit failing_env ''  '' init_chat) = []"
proof -
  have h1: "includedFiles (failing_env\<lparr>includedFiles := []\<rparr>) = [] \<or>
      (trim ''Hello'' = [] \<and> trim (question init_chat) = [])"
    by simp
  have h2: "includedFiles failing_env = [] \<or> (trim ''  '' = [] \<and> trim (question init_chat) = [])"
    by (simp add: trim_def js_whitespace_def init_chat_def)
  have e: "alerts init_chat = []" "requests init_chat = []" "messages init_chat = []"
    "includedFiles failing_env \<noteq> []"
    by (simp_all add: init_chat_def failing_env_def)
  show ?thesis
    using h1 h2 e submit_guards[OF h1] submit_guards[OF h2]
    by simp
qed

text \<open>
  C10. When there is no session and \<open>onCreateSession\<close> resolves to no id, the message
  list, the input text and the loading flag are as before the call; if the run got as
  far as creating the session, all it did was issue that request and show the alert
  \<open>Failed to create chat session.\<close>
\<close>

theorem create_failure_leaves_state:
  assumes "\<not> truthy_num (sessionId env)"
    and "onCreateSession env = Some r"
    and "\<not> truthy_num r"
  shows "messages (handleSubmit env question_p s) = messages s \<and>
         question (handleSubmit env question_p s) = question s \<and>
         isLoading (handleSubmit env question_p s) = isLoading s \<and>
         (includedFiles env \<noteq> [] \<and> finalQuestionOf question_p s \<noteq> [] \<longrightarrow>
            handleSubmit env question_p s =
              s\<lparr>requests := requests s @ [CreateSession],
                alerts := alerts s @ [''Failed to create chat session.'']\<rparr>)"
  using assms
  by (auto simp: handleSubmit_def alert_def Let_def truthy_num_def split: option.splits)

theorem create_failure_leaves_state_witness:
  "\<not> truthy_num (sessionId no_session_env) \<and> onCreateSession no_session_env = Some None \<and>
   \<not> truthy_num None \<and>
   includedFiles no_session_env \<noteq> [] \<and> finalQuestionOf ''Hello'' init_chat \<noteq> [] \<and>
   handleSubmit no_session_env ''Hello'' init_chat =
     init_chat\<lparr>requests := [CreateSession], alerts := [''Failed to create chat session.'']\<rparr> \<and>
   messages (handleSubmit no_session_env ''Hello'' init_chat) = []"
proof -
  have h1: "\<not> truthy_num (sessionId no_session_env)"
    by (simp add: no_session_env_def truthy_num_def)
  have h2: "onCreateSession no_session_env = Some None"
    by (simp add: no_session_env_def failing_env_def)
  have h3: "\<not> truthy_num None" by (simp add: truthy_num_def)
  have h4: "includedFiles no_session_env \<noteq> [] \<and> finalQuestionOf ''Hello'' init_chat \<noteq> []"
    by (simp add: no_session_env_def failing_env_def chat_defs)
  have e: "alerts init_chat = []" "requests init_chat = []" "messages init_chat = []"
    by (simp_all add: init_chat_def)
  show ?thesis
    using h1 h2 h3 h4 e create_failure_leaves_state[OF h1 h2 h3, of "''Hello''" init_chat]
    by simp
qed

subsection \<open>The deferred question\<close>

lemma effect_ok: "deferred_ok d \<Longrightarrow> deferred_ok (pendingQuestionEffect b d)"
  by (auto simp: deferred_ok_def pendingQuestionEffect_def Let_def split: option.splits if_splits)

lemma deferred_step_ok:
  assumes ok: "deferred_ok d"
  shows "deferred_ok (deferred_step d e)"
proof (cases e)
  case (EffectRuns b)
  then show ?thesis using ok by (simp add: effect_ok)
next
  case TimeoutFires
  then show ?thesis using ok
    by (auto simp: deferred_ok_def split: list.splits if_splits)
next
  case (StorageWrite v)
  then show ?thesis using ok by (simp add: deferred_ok_def)
next
  case (LocationChange v)
  then show ?thesis using ok by (simp add: deferred_ok_def)
qed

lemma deferred_ok_init: "deferred_ok (init_deferred sq pq)"
  by (simp add: deferred_ok_def init_deferred_def)

lemma deferred_run_ok: "deferred_ok (deferred_run sq pq evs)"
  unfolding deferred_run_def
  by (induction evs rule: rev_induct) (simp_all add: deferred_step_ok deferred_ok_init)

text \<open>
  C6. During the life of a controller instance, however often the effect runs and
  whatever is written to local storage or the location state in between, at most one
  submission is ever scheduled or made. Whenever one has been scheduled or made, the
  ref is set; every scheduled timeout has the delay 100. While the file list is
  loading, and once the ref is set, a run of the effect changes nothing. A run with
  the file list loaded, the ref unset and a question pending sets the ref, schedules
  the submission of that question and leaves no question pending.
\<close>

theorem deferred_question_once:
  "length (timeouts (deferred_run sq pq evs)) + length (submitted (deferred_run sq pq evs)) \<le> 1 \<and>
   (timeouts (deferred_run sq pq evs) \<noteq> [] \<or> submitted (deferred_run sq pq evs) \<noteq> []
      \<longrightarrow> hasHandledPendingRef (deferred_run sq pq evs)) \<and>
   list_all (\<lambda>t. fst t = 100) (timeouts (deferred_run sq pq evs)) \<and>
   pendingQuestionEffect True d = d \<and>
   (hasHandledPendingRef d \<longrightarrow> pendingQuestionEffect filesIsLoading d = d) \<and>
   (\<not> filesIsLoading \<and> \<not> hasHandledPendingRef d \<and>
    js_or (stateQuestion d) (pendingQuestion d) = Some q \<and> q \<noteq> [] \<longrightarrow>
      hasHandledPendingRef (pendingQuestionEffect filesIsLoading d) \<and>
      timeouts (pendingQuestionEffect filesIsLoading d) = timeouts d @ [(100, q)] \<and>
      \<not> truthy_str (pendingQuestion (pendingQuestionEffect filesIsLoading d)) \<and>
      \<not> truthy_str (stateQuestion (pendingQuestionEffect filesIsLoading d)))"
proof -
  have ok: "deferred_ok (deferred_run sq pq evs)" by (rule deferred_run_ok)
  have a: "length (timeouts (deferred_run sq pq evs)) + length (submitted (deferred_run sq pq evs)) \<le> 1"
    using ok by (simp add: deferred_ok_def split: if_splits)
  have b: "timeouts (deferred_run sq pq evs) \<noteq> [] \<or> submitted (deferred_run sq pq evs) \<noteq> []
      \<longrightarrow> hasHandledPendingRef (deferred_run sq pq evs)"
    using ok by (auto simp: deferred_ok_def split: if_splits)
  have c: "list_all (\<lambda>t. fst t = 100) (timeouts (deferred_run sq pq evs))"
    using ok by (simp add: deferred_ok_def)
  have e: "pendingQuestionEffect True d = d"
    "hasHandledPendingRef d \<longrightarrow> pendingQuestionEffect filesIsLoading d = d"
    by (simp_all add: pendingQuestionEffect_def)
  have f: "\<not> filesIsLoading \<and> \<not> hasHandledPendingRef d \<and>
    js_or (stateQuestion d) (pendingQuestion d) = Some q \<and> q \<noteq> [] \<longrightarrow>
      hasHandledPendingRef (pendingQuestionEffect filesIsLoading d) \<and>
      timeouts (pendingQuestionEffect filesIsLoading d) = timeouts d @ [(100, q)] \<and>
      \<not> truthy_str (pendingQuestion (pendingQuestionEffect filesIsLoading d)) \<and>
      \<not> truthy_str (stateQuestion (pendingQuestionEffect filesIsLoading d))"
    by (auto simp: pendingQuestionEffect_def Let_def js_or_def truthy_str_def split: if_splits option.splits)
  show ?thesis using a b c e f by blast
qed

theorem deferred_question_once_witness:
  "timeouts (deferred_run None (Some ''Hi'') [EffectRuns True, EffectRuns False])
     = [(100, ''Hi'')] \<and>
   hasHandledPendingRef (deferred_run None (Some ''Hi'') [EffectRuns True, EffectRuns False]) \<and>
   pendingQuestionEffect False (deferred_run None (Some ''Hi'') [EffectRuns True, EffectRuns False])
     = deferred_run None (Some ''Hi'') [EffectRuns True, EffectRuns False] \<and>
   \<not> hasHandledPendingRef (init_deferred None (Some ''Hi'')) \<and>
   js_or (stateQuestion (init_deferred None (Some ''Hi'')))
     (pendingQuestion (init_deferred None (Some ''Hi''))) = Some ''Hi'' \<and>
   timeouts (pendingQuestionEffect False (init_deferred None (Some ''Hi''))) = [(100, ''Hi'')] \<and>
   submitted (deferred_run None (Some ''Hi'')
     [EffectRuns True, EffectRuns False, StorageWrite (Some ''Hi''), EffectRuns False,
      TimeoutFires, LocationChange (Some ''again''), EffectRuns False, TimeoutFires]) = [''Hi'']"
proof -
  let ?d = "deferred_run None (Some ''Hi'') [EffectRuns True, EffectRuns False]"
  have h1: "timeouts ?d = [(100, ''Hi'')]"
    by (simp add: deferred_run_def init_deferred_def pendingQuestionEffect_def js_or_def
        truthy_str_def Let_def)
  have h2: "\<not> False \<and> \<not> hasHandledPendingRef (init_deferred None (Some ''Hi'')) \<and>
    js_or (stateQuestion (init_deferred None (Some ''Hi'')))
      (pendingQuestion (init_deferred None (Some ''Hi''))) = Some ''Hi'' \<and> ''Hi'' \<noteq> []"
    by (simp add: init_deferred_def js_or_def truthy_str_def)
  have e: "timeouts (init_deferred None (Some ''Hi'')) = []"
    by (simp add: init_deferred_def)
  have s: "submitted (deferred_run None (Some ''Hi'')
     [EffectRuns True, EffectRuns False, StorageWrite (Some ''Hi''), EffectRuns False,
      TimeoutFires, LocationChange (Some ''again''), EffectRuns False, TimeoutFires]) = [''Hi'']"
    by (simp add: deferred_run_def init_deferred_def pendingQuestionEffect_def js_or_def
        truthy_str_def Let_def)
  show ?thesis
    using h1 h2 e s
      deferred_question_once[of None "Some ''Hi''" "[EffectRuns True, EffectRuns False]"
        ?d False "''Hi''"]
      deferred_question_once[of None "Some ''Hi''" "[]"
        "init_deferred None (Some ''Hi'')" False "''Hi''"]
    by simp
qed

section \<open>Properties of the session list\<close>

text \<open>
  \<open>createNewSession\<close> increments \<open>chatKey\<close> exactly when it returns an id, and changes
  nothing when it returns none.
\<close>

lemma createNewSession_chatKey:
  "chatKey (snd (createNewSession response s)) =
     (if fst (createNewSession response s) = None then chatKey s else Suc (chatKey s))"
  "fst (createNewSession response s) = None \<Longrightarrow> snd (createNewSession response s) = s"
  by (simp_all add: createNewSession_def split: option.splits)

text \<open>
  When the roster request resolves, the roster becomes the fetched one, and the first
  fetched session becomes the active one exactly when the callback captured no active
  session, the fetched roster is not empty, and no question is pending in the location
  state or in local storage; otherwise the active session is the one before.
\<close>

lemma fetchSessions_selects:
  "sessions (fetchSessions captured (Some data) stateQ storedQ s) = data \<and>
   activeSessionId (fetchSessions captured (Some data) stateQ storedQ s) =
     (if \<not> truthy_num captured \<and> data \<noteq> [] \<and>
         \<not> truthy_str stateQ \<and> \<not> truthy_str storedQ
      then Some (session_id (hd data))
      else activeSessionId s)"
  by (cases data) (auto simp: fetchSessions_def Let_def js_or_def)

text \<open>
  C8. The claim is what the guard's comment says and what a callback of the current
  render does; it fails for a callback that captured \<open>null\<close> and resolves when a
  session is active. Session 9 has just been created and is the active one, no
  question is pending, and the roster request of the callback created before (the
  one called at mount, or the \<open>onSessionUpdate\<close> that \<open>handleSubmit\<close> was rendered with)
  resolves: whether the roster is the older \<open>[5, 3]\<close> or \<open>[5, 9]\<close>, session 5 becomes
  the active one although a session was active. The callback of the current render
  leaves session 9 active.
\<close>

theorem refresh_stale_callback_steals_selection:
  "activeSessionId created_page = Some 9 \<and>
   activeSessionId (fetchSessions None (Some example_roster) None None created_page) = Some 5 \<and>
   activeSessionId (fetchSessions None (Some unordered_roster) None None created_page) = Some 5 \<and>
   activeSessionId (fetchSessions (Some 9) (Some unordered_roster) None None created_page)
     = Some 9"
  by (simp add: fetchSessions_def createNewSession_def created_page_def init_page_def
      example_roster_def unordered_roster_def js_or_def truthy_num_def truthy_str_def Let_def)




end
